theory Spec2Isabelle
  imports Complex_Main "HOL-Library.AList"
begin

section \<open>Motion detection and region dispatch (AngleFromMotion.py)\<close>

text \<open>
  The development follows \<^verbatim>\<open>SimpleCV/examples/GSoC Demo/AngleFromMotion.py\<close>:
  the detection strategies, the \<^verbatim>\<open>MotionDetector\<close> context object, the \<^verbatim>\<open>ROI\<close>
  descriptor and the \<^verbatim>\<open>ROIHandler\<close> dispatcher. The second file,
  \<^verbatim>\<open>ShortAngleFromMotion.py\<close>, repeats the same classes without two of the
  strategies.
\<close>

subsection \<open>Errors and observable events\<close>

text \<open>
  The Python exceptions the code itself can raise: indexing the flattened matrix out of
  range, dividing by the length of an empty matrix, and looking up a region that is not a
  key of the dictionary.
\<close>

datatype error = IndexError | ZeroDivisionError | KeyError

text \<open>
  What a run shows to the outside: a line written by \<^verbatim>\<open>print\<close>, and the invocation
  of a registered function with its two arguments. A registered function is user code; the
  model records that it was called and with what, and takes it to return normally and to
  leave the handler alone.
\<close>

type_synonym ref = nat

datatype ('c, 'f) event = is_Print: Print string | is_Call: Call 'c (call_region: ref) 'f

subsection \<open>The image library\<close>

text \<open>
  \<^verbatim>\<open>from SimpleCV import *\<close>: the \<^verbatim>\<open>Image\<close> class is not part of the two files.
  Its operations are taken as a parameter, one field for each operation the code calls on
  an image: the attributes \<^verbatim>\<open>width\<close> and \<^verbatim>\<open>height\<close>, the operator \<^verbatim>\<open>-\<close>,
  \<^verbatim>\<open>getNumpy().flatten()\<close>, \<^verbatim>\<open>meanColor()\<close>, \<^verbatim>\<open>crop(x, y, w, h)\<close> and the
  truth value of \<^verbatim>\<open>findBlobs(threshval, threshblocksize=...)\<close>. Matrix entries are
  integers. Mean colours and the quotient \<^verbatim>\<open>float(counter) / float(len(flat_matrix))\<close>
  are read as real numbers; for a matrix of fewer than \<open>2 ^ 53\<close> entries the rounded
  quotient lies on the same side of 0.5 as the exact one.
\<close>

record 'f image_library =
  img_width :: "'f \<Rightarrow> int"
  img_height :: "'f \<Rightarrow> int"
  img_sub :: "'f \<Rightarrow> 'f \<Rightarrow> 'f"
  img_flatten :: "'f \<Rightarrow> int list"
  img_meanColor :: "'f \<Rightarrow> real \<times> real \<times> real"
  img_crop :: "'f \<Rightarrow> int \<Rightarrow> int \<Rightarrow> int \<Rightarrow> int \<Rightarrow> 'f"
  img_findBlobs :: "'f \<Rightarrow> int \<Rightarrow> int \<Rightarrow> bool"

subsection \<open>Detection strategies\<close>

datatype strategy =
    MotionDetectorByBlobs
  | MotionDetectorByMatrix
  | MotionDetectorByMeanColor
  | MotionDetectorByMockup

definition MotionDetectorByBlobs_isMoving :: "'f image_library \<Rightarrow> 'f \<Rightarrow> 'f \<Rightarrow> error + bool" where
  "MotionDetectorByBlobs_isMoving lib new_image old_image =
     (let difference_image = img_sub lib new_image old_image
      in if img_findBlobs lib difference_image (- 1) 99 then Inr True else Inr False)"

text \<open>
  \<^verbatim>\<open>flat_matrix[pixel]\<close>: an index from \<open>-n\<close> up to \<open>n - 1\<close> is in range, a negative
  one counting from the end; any other raises.
\<close>

definition getitem :: "int list \<Rightarrow> int \<Rightarrow> error + int" where
  "getitem flat_matrix pixel =
     (if 0 \<le> pixel \<and> pixel < int (length flat_matrix)
        then Inr (flat_matrix ! nat pixel)
      else if - int (length flat_matrix) \<le> pixel \<and> pixel < 0
        then Inr (flat_matrix ! nat (int (length flat_matrix) + pixel))
      else Inl IndexError)"

text \<open>
  The loop \<^verbatim>\<open>for pixel in flat_matrix: if flat_matrix[pixel] == 0: counter += 1\<close>.
  The first argument is the whole matrix, the second what is left to iterate over.
\<close>

fun count_black :: "int list \<Rightarrow> int list \<Rightarrow> nat \<Rightarrow> error + nat" where
  "count_black flat_matrix [] counter = Inr counter"
| "count_black flat_matrix (pixel # rest) counter =
     (case getitem flat_matrix pixel of
        Inl e \<Rightarrow> Inl e
      | Inr v \<Rightarrow> count_black flat_matrix rest (if v = 0 then counter + 1 else counter))"

definition MotionDetectorByMatrix_isMoving :: "'f image_library \<Rightarrow> 'f \<Rightarrow> 'f \<Rightarrow> error + bool" where
  "MotionDetectorByMatrix_isMoving lib new_image old_image =
     (let difference_image = img_sub lib new_image old_image;
          flat_matrix = img_flatten lib difference_image
      in case count_black flat_matrix flat_matrix 0 of
           Inl e \<Rightarrow> Inl e
         | Inr counter \<Rightarrow>
             if length flat_matrix = 0 then Inl ZeroDivisionError
             else let percent_change = real counter / real (length flat_matrix)
                  in if percent_change > 0.5 then Inr True else Inr False)"

definition MotionDetectorByMeanColor_isMoving :: "'f image_library \<Rightarrow> 'f \<Rightarrow> 'f \<Rightarrow> error + bool" where
  "MotionDetectorByMeanColor_isMoving lib new_image old_image =
     (let threshold = 0.1 in
      case img_meanColor lib new_image of (new_red, new_green, new_blue) \<Rightarrow>
      case img_meanColor lib old_image of (old_red, old_green, old_blue) \<Rightarrow>
        if \<bar>new_red - old_red\<bar> \<ge> threshold \<or>
           \<bar>new_green - old_green\<bar> \<ge> threshold \<or>
           \<bar>new_blue - old_blue\<bar> \<ge> threshold
        then Inr True else Inr False)"

definition MotionDetectorByMockup_isMoving :: "'f image_library \<Rightarrow> 'f \<Rightarrow> 'f \<Rightarrow> error + bool" where
  "MotionDetectorByMockup_isMoving lib new_image old_image = Inr True"

text \<open>The method call \<^verbatim>\<open>self.concrete_strategy.isMoving(...)\<close>, resolved by the class.\<close>

fun strategy_isMoving :: "'f image_library \<Rightarrow> strategy \<Rightarrow> 'f \<Rightarrow> 'f \<Rightarrow> error + bool" where
  "strategy_isMoving lib MotionDetectorByBlobs new_image old_image =
     MotionDetectorByBlobs_isMoving lib new_image old_image"
| "strategy_isMoving lib MotionDetectorByMatrix new_image old_image =
     MotionDetectorByMatrix_isMoving lib new_image old_image"
| "strategy_isMoving lib MotionDetectorByMeanColor new_image old_image =
     MotionDetectorByMeanColor_isMoving lib new_image old_image"
| "strategy_isMoving lib MotionDetectorByMockup new_image old_image =
     MotionDetectorByMockup_isMoving lib new_image old_image"

subsection \<open>MotionDetector\<close>

text \<open>
  The constructor receives a strategy class or a falsy value (\<open>None\<close>); an instance of a
  strategy class has no fields, so the instance is the class tag.
\<close>

record MotionDetector =
  concrete_strategy :: "strategy option"

definition MotionDetector_init :: "strategy option \<Rightarrow> MotionDetector" where
  "MotionDetector_init strategy =
     (let self = \<lparr>concrete_strategy = None\<rparr>
      in case strategy of
           Some cls \<Rightarrow> self\<lparr>concrete_strategy := Some cls\<rparr>
         | None \<Rightarrow> self)"

definition MotionDetector_isMoving ::
  "'f image_library \<Rightarrow> MotionDetector \<Rightarrow> 'f \<Rightarrow> 'f \<Rightarrow> error + bool" where
  "MotionDetector_isMoving lib self new_image old_image =
     (case concrete_strategy self of
        Some s \<Rightarrow> strategy_isMoving lib s new_image old_image
      | None \<Rightarrow> Inr False)"

subsection \<open>ROI objects\<close>

text \<open>
  \<^verbatim>\<open>class ROI\<close> defines neither equality nor a hash, so a dictionary tells two regions
  apart by object identity. A region is therefore a reference into a store of objects;
  the constructor takes the next free reference.
\<close>

record ROI =
  x :: int
  y :: int
  height :: int
  width :: int

record heap =
  objects :: "ref \<Rightarrow> ROI"
  allocated :: nat

definition ROI_init :: "heap \<Rightarrow> int \<Rightarrow> int \<Rightarrow> int \<Rightarrow> int \<Rightarrow> ref \<times> heap" where
  "ROI_init hp x0 y0 width0 height0 =
     (allocated hp,
      \<lparr>objects = (objects hp)(allocated hp := \<lparr>x = x0, y = y0, height = height0, width = width0\<rparr>),
       allocated = Suc (allocated hp)\<rparr>)"

definition empty_heap :: heap where
  "empty_heap = \<lparr>objects = (\<lambda>_. \<lparr>x = 0, y = 0, height = 0, width = 0\<rparr>), allocated = 0\<rparr>"

subsection \<open>ROIHandler\<close>

text \<open>
  \<^verbatim>\<open>ROIDict\<close> is a Python dictionary keyed by region objects: an association list
  with one entry for each key, \<^verbatim>\<open>keys()\<close> listing the keys in the list's order. An
  assignment to an existing key replaces its value, an assignment to a new key adds an
  entry.

  The handler is a mutable object. Each method takes the handler as \<open>self\<close> and returns,
  next to the events it produced and its result, the handler as the call leaves it.
\<close>

record 'c ROIHandler =
  MotionDetector :: MotionDetector
  ROIDict :: "(ref \<times> 'c) list"

type_synonym ('c, 'f, 'a) run = "(('c, 'f) event list \<times> (error + 'a)) \<times> 'c ROIHandler"

definition ROIHandler_init :: "strategy option \<Rightarrow> 'c ROIHandler" where
  "ROIHandler_init md_strategy =
     \<lparr>MotionDetector = MotionDetector_init md_strategy, ROIDict = []\<rparr>"

definition MapRegionToFunc :: "'c ROIHandler \<Rightarrow> ref \<Rightarrow> 'c \<Rightarrow> 'c ROIHandler" where
  "MapRegionToFunc self newROI func =
     self\<lparr>ROIDict := AList.update newROI func (ROIDict self)\<rparr>"

definition CheckRegionFits :: "'f image_library \<Rightarrow> heap \<Rightarrow> ref \<Rightarrow> 'f \<Rightarrow> bool" where
  "CheckRegionFits lib hp region img =
     (let region_total_height = y (objects hp region) + height (objects hp region);
          region_total_width = x (objects hp region) + width (objects hp region)
      in if region_total_height \<le> img_height lib img \<and>
            region_total_width \<le> img_width lib img
         then True else False)"

definition emit :: "('c, 'f) event \<Rightarrow> ('c, 'f, 'a) run \<Rightarrow> ('c, 'f, 'a) run" where
  "emit ev r = ((ev # fst (fst r), snd (fst r)), snd r)"

text \<open>
  The loop of \<^verbatim>\<open>getRegionsMoving\<close> over the list \<^verbatim>\<open>self.ROIDict.keys()\<close>, with
  the list \<^verbatim>\<open>ROI_with_movement\<close> built so far. An exception of the strategy ends
  the loop.
\<close>

fun getRegionsMoving_loop ::
  "'f image_library \<Rightarrow> heap \<Rightarrow> 'f \<Rightarrow> 'f \<Rightarrow> ref list \<Rightarrow> 'c ROIHandler \<Rightarrow> ref list
     \<Rightarrow> ('c, 'f, ref list) run" where
  "getRegionsMoving_loop lib hp new_image old_image [] self ROI_with_movement =
     (([], Inr ROI_with_movement), self)"
| "getRegionsMoving_loop lib hp new_image old_image (r # rs) self ROI_with_movement =
     (if CheckRegionFits lib hp r new_image \<and> CheckRegionFits lib hp r old_image then
        let new_subimage = img_crop lib new_image (x (objects hp r)) (y (objects hp r))
                             (width (objects hp r)) (height (objects hp r));
            old_subimage = img_crop lib old_image (x (objects hp r)) (y (objects hp r))
                             (width (objects hp r)) (height (objects hp r))
        in case MotionDetector_isMoving lib (MotionDetector self) new_subimage old_subimage of
             Inl e \<Rightarrow> (([], Inl e), self)
           | Inr moving \<Rightarrow>
               getRegionsMoving_loop lib hp new_image old_image rs self
                 (if moving then ROI_with_movement @ [r] else ROI_with_movement)
      else
        emit (Print ''Error: Region out of bounds of Image'')
          (getRegionsMoving_loop lib hp new_image old_image rs self ROI_with_movement))"

definition getRegionsMoving ::
  "'f image_library \<Rightarrow> heap \<Rightarrow> 'c ROIHandler \<Rightarrow> 'f \<Rightarrow> 'f \<Rightarrow> ('c, 'f, ref list) run" where
  "getRegionsMoving lib hp self new_image old_image =
     getRegionsMoving_loop lib hp new_image old_image (map fst (ROIDict self)) self []"

definition ExecRegionFunc :: "'c ROIHandler \<Rightarrow> ref \<Rightarrow> 'f \<Rightarrow> ('c, 'f, unit) run" where
  "ExecRegionFunc self region img =
     (case map_of (ROIDict self) region of
        None \<Rightarrow> (([], Inl KeyError), self)
      | Some func \<Rightarrow> (([Call func region img], Inr ()), self))"

text \<open>The loop \<^verbatim>\<open>for m in moving: self.ExecRegionFunc(m, old_image)\<close>.\<close>

fun ExecMovingRegionFuncs_loop ::
  "ref list \<Rightarrow> 'c ROIHandler \<Rightarrow> 'f \<Rightarrow> ('c, 'f, unit) run" where
  "ExecMovingRegionFuncs_loop [] self old_image = (([], Inr ()), self)"
| "ExecMovingRegionFuncs_loop (m # ms) self old_image =
     (case ExecRegionFunc self m old_image of
        ((evs, Inl e), self1) \<Rightarrow> ((evs, Inl e), self1)
      | ((evs, Inr _), self1) \<Rightarrow>
          (case ExecMovingRegionFuncs_loop ms self1 old_image of
             ((evs', res), self2) \<Rightarrow> ((evs @ evs', res), self2)))"

definition ExecMovingRegionFuncs ::
  "'f image_library \<Rightarrow> heap \<Rightarrow> 'c ROIHandler \<Rightarrow> 'f \<Rightarrow> 'f \<Rightarrow> ('c, 'f, unit) run" where
  "ExecMovingRegionFuncs lib hp self new_image old_image =
     (case getRegionsMoving lib hp self new_image old_image of
        ((evs, Inl e), self1) \<Rightarrow> ((evs, Inl e), self1)
      | ((evs, Inr moving), self1) \<Rightarrow>
          (case ExecMovingRegionFuncs_loop moving self1 old_image of
             ((evs', res), self2) \<Rightarrow> ((evs @ evs', res), self2)))"

subsection \<open>A concrete image library\<close>

text \<open>
  One instance of the library parameter, for running the model on concrete frames: a
  grey image, given as a list of rows of pixel values, each value standing for three equal
  colour channels. Subtraction is pointwise and stops at 0. As \<^verbatim>\<open>getNumpy()\<close> gives
  an array of shape width by height by 3, flattening walks the columns, in each column
  the rows, and lists the three channel values of each pixel. The mean colour is the mean
  pixel in each channel, cropping keeps \<open>h\<close> rows from row \<open>cy\<close> and \<open>w\<close> pixels of
  each from column \<open>cx\<close>, and a blob is found when a pixel is not 0.
\<close>

type_synonym raster = "int list list"

definition raster_mean :: "raster \<Rightarrow> real" where
  "raster_mean img =
     (if concat img = [] then 0
      else real_of_int (sum_list (concat img)) / real (length (concat img)))"

definition raster_lib :: "raster image_library" where
  "raster_lib =
     \<lparr>img_width = (\<lambda>img. case img of [] \<Rightarrow> 0 | row # _ \<Rightarrow> int (length row)),
      img_height = (\<lambda>img. int (length img)),
      img_sub = (\<lambda>a b. map2 (map2 (\<lambda>p q. max 0 (p - q))) a b),
      img_flatten = (\<lambda>img. concat (map (\<lambda>p. [p, p, p]) (concat (transpose img)))),
      img_meanColor = (\<lambda>img. (raster_mean img, raster_mean img, raster_mean img)),
      img_crop = (\<lambda>img cx cy w h.
                    map (\<lambda>row. take (nat w) (drop (nat cx) row)) (take (nat h) (drop (nat cy) img))),
      img_findBlobs = (\<lambda>img threshval threshblocksize. list_ex (\<lambda>p. p \<noteq> 0) (concat img))\<rparr>"

subsection \<open>The decision rules in the words of the specification\<close>

text \<open>
  MatrixPercentage as the specification describes it: count the entries of the flattened
  difference that are 0, take \<open>changed_fraction = 1 - zero_count / total_count\<close>, and
  report motion when it is above 0.5.
\<close>

definition changed_fraction :: "int list \<Rightarrow> real" where
  "changed_fraction flat_matrix =
     1 - real (length (filter (\<lambda>p. p = 0) flat_matrix)) / real (length flat_matrix)"

definition MatrixPercentage_rule :: "'f image_library \<Rightarrow> 'f \<Rightarrow> 'f \<Rightarrow> bool" where
  "MatrixPercentage_rule lib new_image old_image =
     (changed_fraction (img_flatten lib (img_sub lib new_image old_image)) > 0.5)"


subsection \<open>Notions for stating the properties of the dispatcher\<close>

text \<open>The regions passed to registered functions, in the order of the calls.\<close>

definition called_regions :: "('c, 'f) event list \<Rightarrow> ref list" where
  "called_regions evs = map call_region (filter is_Call evs)"

text \<open>
  The handler as it would be had the region never been registered. The class has no
  method that removes a region; this is the handler to compare a run with.
\<close>

definition forget_region :: "'c ROIHandler \<Rightarrow> ref \<Rightarrow> 'c ROIHandler" where
  "forget_region self region = self\<lparr>ROIDict := AList.delete region (ROIDict self)\<rparr>"

text \<open>The two tests the loop of \<^verbatim>\<open>getRegionsMoving\<close> makes for one region.\<close>

definition region_fits :: "'f image_library \<Rightarrow> heap \<Rightarrow> 'f \<Rightarrow> 'f \<Rightarrow> ref \<Rightarrow> bool" where
  "region_fits lib hp new_image old_image r =
     (CheckRegionFits lib hp r new_image \<and> CheckRegionFits lib hp r old_image)"

definition region_isMoving ::
  "'f image_library \<Rightarrow> heap \<Rightarrow> MotionDetector \<Rightarrow> 'f \<Rightarrow> 'f \<Rightarrow> ref \<Rightarrow> error + bool" where
  "region_isMoving lib hp md new_image old_image r =
     MotionDetector_isMoving lib md
       (img_crop lib new_image (x (objects hp r)) (y (objects hp r))
          (width (objects hp r)) (height (objects hp r)))
       (img_crop lib old_image (x (objects hp r)) (y (objects hp r))
          (width (objects hp r)) (height (objects hp r)))"

subsection \<open>A sample scene\<close>

text \<open>
  Three regions built by \<^verbatim>\<open>ROI(0, 0, 2, 2)\<close>, \<^verbatim>\<open>ROI(0, 0, 2, 2)\<close> and
  \<^verbatim>\<open>ROI(1, 0, 2, 2)\<close>, registered in this order with the functions \<open>f\<close>, \<open>g\<close> and
  \<open>h\<close> on a handler built with the given strategy, and two frames of 2 by 2 pixels.
  The first two regions fit the frames, the third does not.
\<close>

definition sample_heap :: heap where
  "sample_heap =
     snd (ROI_init (snd (ROI_init (snd (ROI_init empty_heap 0 0 2 2)) 0 0 2 2)) 1 0 2 2)"

definition sample_handler :: "strategy option \<Rightarrow> string ROIHandler" where
  "sample_handler md_strategy =
     MapRegionToFunc (MapRegionToFunc (MapRegionToFunc (ROIHandler_init md_strategy)
       0 ''f'') 1 ''g'') 2 ''h''"

definition frame_a :: raster where
  "frame_a = [ [7, 8], [8, 8] ]"

definition frame_b :: raster where
  "frame_b = [ [7, 7], [7, 7] ]"

section \<open>Properties\<close>

subsection \<open>Auxiliary facts\<close>

lemma raster_lib_sel:
  "img_width raster_lib img = (case img of [] \<Rightarrow> 0 | row # _ \<Rightarrow> int (length row))"
  "img_height raster_lib img = int (length img)"
  "img_sub raster_lib a b = map2 (map2 (\<lambda>p q. max 0 (p - q))) a b"
  "img_flatten raster_lib img = concat (map (\<lambda>p. [p, p, p]) (concat (transpose img)))"
  "img_meanColor raster_lib img = (raster_mean img, raster_mean img, raster_mean img)"
  "img_crop raster_lib img cx cy w h =
     map (\<lambda>row. take (nat w) (drop (nat cx) row)) (take (nat h) (drop (nat cy) img))"
  by (simp_all add: raster_lib_def)

lemma getRegionsMoving_loop_self:
  "snd (getRegionsMoving_loop lib hp new_image old_image ks self acc) = self"
  by (induction ks arbitrary: acc) (simp_all add: emit_def Let_def split: sum.splits)

lemma getRegionsMoving_loop_step:
  "getRegionsMoving_loop lib hp new_image old_image (r # rs) self acc =
     (if region_fits lib hp new_image old_image r then
        case region_isMoving lib hp (MotionDetector self) new_image old_image r of
          Inl e \<Rightarrow> (([], Inl e), self)
        | Inr moving \<Rightarrow> getRegionsMoving_loop lib hp new_image old_image rs self
                         (if moving then acc @ [r] else acc)
      else emit (Print ''Error: Region out of bounds of Image'')
             (getRegionsMoving_loop lib hp new_image old_image rs self acc))"
  by (simp add: region_fits_def region_isMoving_def Let_def)

lemma getRegionsMoving_loop_result:
  "snd (fst (getRegionsMoving_loop lib hp new_image old_image ks self acc)) = Inr regs \<Longrightarrow>
   regs = acc @ filter (\<lambda>k. region_fits lib hp new_image old_image k \<and>
                     region_isMoving lib hp (MotionDetector self) new_image old_image k = Inr True) ks"
proof (induction ks arbitrary: acc)
  case Nil
  then show ?case by simp
next
  case (Cons k ks)
  show ?case
  proof (cases "region_fits lib hp new_image old_image k")
    case False
    with Cons.prems have "snd (fst (getRegionsMoving_loop lib hp new_image old_image ks self acc)) = Inr regs"
      by (simp only: getRegionsMoving_loop_step if_False emit_def fst_conv snd_conv)
    from Cons.IH [OF this] False show ?thesis by simp
  next
    case True
    show ?thesis
    proof (cases "region_isMoving lib hp (MotionDetector self) new_image old_image k")
      case (Inl e)
      with True Cons.prems show ?thesis
        by (simp add: getRegionsMoving_loop_step del: getRegionsMoving_loop.simps)
    next
      case (Inr moving)
      with True Cons.prems
      have "snd (fst (getRegionsMoving_loop lib hp new_image old_image ks self
                        (if moving then acc @ [k] else acc))) = Inr regs"
        by (simp add: getRegionsMoving_loop_step del: getRegionsMoving_loop.simps)
      from Cons.IH [OF this] True Inr show ?thesis by (cases moving) simp_all
    qed
  qed
qed

lemma getRegionsMoving_loop_prints:
  "filter is_Call (fst (fst (getRegionsMoving_loop lib hp new_image old_image ks self acc))) = []"
  by (induction ks arbitrary: acc) (simp_all add: emit_def Let_def split: sum.splits)

lemma getRegionsMoving_loop_detector:
  "MotionDetector self1 = MotionDetector self2 \<Longrightarrow>
   fst (getRegionsMoving_loop lib hp new_image old_image ks self1 acc) =
   fst (getRegionsMoving_loop lib hp new_image old_image ks self2 acc)"
  by (induction ks arbitrary: acc) (simp_all add: emit_def Let_def split: sum.splits)

lemma getRegionsMoving_loop_removeAll:
  "\<not> region_fits lib hp new_image old_image R \<Longrightarrow>
   snd (fst (getRegionsMoving_loop lib hp new_image old_image ks self acc)) =
   snd (fst (getRegionsMoving_loop lib hp new_image old_image (removeAll R ks) self acc))"
proof (induction ks arbitrary: acc)
  case Nil
  show ?case by simp
next
  case (Cons k ks)
  show ?case
  proof (cases "k = R")
    case True
    with Cons show ?thesis
      by (simp add: getRegionsMoving_loop_step emit_def del: getRegionsMoving_loop.simps)
  next
    case False
    with Cons show ?thesis
      by (simp add: getRegionsMoving_loop_step emit_def del: getRegionsMoving_loop.simps split: sum.splits)
  qed
qed

lemma keys_delete: "map fst (AList.delete k al) = removeAll k (map fst al)"
  by (induction al) (auto simp: AList.delete_eq)

lemma ExecMovingRegionFuncs_loop_calls:
  "set ms \<subseteq> fst ` set (ROIDict self) \<Longrightarrow>
   ExecMovingRegionFuncs_loop ms self img =
     ((map (\<lambda>m. Call (the (map_of (ROIDict self) m)) m img) ms, Inr ()), self)"
proof (induction ms)
  case Nil
  show ?case by simp
next
  case (Cons m ms)
  then obtain func where "map_of (ROIDict self) m = Some func"
    by (metis insert_subset list.simps(15) map_of_eq_None_iff not_Some_eq)
  with Cons show ?case by (simp add: ExecRegionFunc_def)
qed

lemma getRegionsMoving_registered:
  assumes "fst (getRegionsMoving lib hp self new_image old_image) = (evs, Inr moving)"
  shows "set moving \<subseteq> fst ` set (ROIDict self)"
proof -
  from assms have "snd (fst (getRegionsMoving_loop lib hp new_image old_image (map fst (ROIDict self)) self [])) = Inr moving"
    by (simp add: getRegionsMoving_def)
  from getRegionsMoving_loop_result [OF this] show ?thesis by auto
qed

lemma ExecMovingRegionFuncs_Inr:
  assumes "fst (getRegionsMoving lib hp self new_image old_image) = (evs, Inr moving)"
  shows "ExecMovingRegionFuncs lib hp self new_image old_image =
           ((evs @ map (\<lambda>m. Call (the (map_of (ROIDict self) m)) m old_image) moving, Inr ()), self)"
proof -
  have s: "snd (getRegionsMoving lib hp self new_image old_image) = self"
    by (simp add: getRegionsMoving_def getRegionsMoving_loop_self)
  with assms have g: "getRegionsMoving lib hp self new_image old_image = ((evs, Inr moving), self)"
    by (metis prod.collapse)
  show ?thesis
    by (simp add: ExecMovingRegionFuncs_def g
          ExecMovingRegionFuncs_loop_calls [OF getRegionsMoving_registered [OF assms] ])
qed

lemma ExecMovingRegionFuncs_Inl:
  assumes "fst (getRegionsMoving lib hp self new_image old_image) = (evs, Inl e)"
  shows "ExecMovingRegionFuncs lib hp self new_image old_image = ((evs, Inl e), self)"
proof -
  have s: "snd (getRegionsMoving lib hp self new_image old_image) = self"
    by (simp add: getRegionsMoving_def getRegionsMoving_loop_self)
  with assms have g: "getRegionsMoving lib hp self new_image old_image = ((evs, Inl e), self)"
    by (metis prod.collapse)
  show ?thesis by (simp add: ExecMovingRegionFuncs_def g)
qed

lemma getRegionsMoving_self:
  "snd (getRegionsMoving lib hp self new_image old_image) = self"
  by (simp add: getRegionsMoving_def getRegionsMoving_loop_self)

lemma ExecMovingRegionFuncs_self:
  "snd (ExecMovingRegionFuncs lib hp self new_image old_image) = self"
proof (cases "fst (getRegionsMoving lib hp self new_image old_image)")
  case (Pair evs res)
  then show ?thesis
    by (cases res) (simp_all add: ExecMovingRegionFuncs_Inl ExecMovingRegionFuncs_Inr)
qed

lemma getRegionsMoving_loop_mockup:
  "concrete_strategy (MotionDetector self) = Some MotionDetectorByMockup \<Longrightarrow>
   \<exists>evs. getRegionsMoving_loop lib hp new_image old_image ks self acc =
           ((evs, Inr (acc @ filter (region_fits lib hp new_image old_image) ks)), self)"
proof (induction ks arbitrary: acc)
  case Nil
  show ?case by simp
next
  case (Cons k ks)
  have m: "region_isMoving lib hp (MotionDetector self) new_image old_image k = Inr True"
    using Cons.prems
    by (simp add: region_isMoving_def MotionDetector_isMoving_def MotionDetectorByMockup_isMoving_def)
  show ?case
  proof (cases "region_fits lib hp new_image old_image k")
    case True
    from Cons.IH [OF Cons.prems, of "acc @ [k]"] True m show ?thesis
      by (simp add: getRegionsMoving_loop_step del: getRegionsMoving_loop.simps)
  next
    case False
    from Cons.IH [OF Cons.prems, of acc] False show ?thesis
      by (auto simp add: getRegionsMoving_loop_step emit_def simp del: getRegionsMoving_loop.simps)
  qed
qed

lemma distinct_keys_init: "distinct (map fst (ROIDict (ROIHandler_init md_strategy)))"
  by (simp add: ROIHandler_init_def)

lemma distinct_keys_MapRegionToFunc:
  "distinct (map fst (ROIDict self)) \<Longrightarrow> distinct (map fst (ROIDict (MapRegionToFunc self r func)))"
  by (simp add: MapRegionToFunc_def distinct_update)

lemma called_regions_calls:
  "filter is_Call evs = [] \<Longrightarrow> called_regions (evs @ map (\<lambda>m. Call (c m) m img) ms) = ms"
  by (simp add: called_regions_def filter_map comp_def map_idI)

lemma sample_fits:
  "CheckRegionFits raster_lib sample_heap 0 frame_a" "CheckRegionFits raster_lib sample_heap 0 frame_b"
  "CheckRegionFits raster_lib sample_heap (Suc 0) frame_a" "CheckRegionFits raster_lib sample_heap (Suc 0) frame_b"
  "\<not> CheckRegionFits raster_lib sample_heap 2 frame_a" "\<not> CheckRegionFits raster_lib sample_heap 2 frame_b"
  by (simp_all add: CheckRegionFits_def sample_heap_def ROI_init_def empty_heap_def frame_a_def
        frame_b_def raster_lib_sel)

lemma sample_dict:
  "ROIDict (sample_handler md_strategy) = [(0, ''f''), (Suc 0, ''g''), (2, ''h'')]"
  "MotionDetector (sample_handler md_strategy) = MotionDetector_init md_strategy"
  by (simp_all add: sample_handler_def MapRegionToFunc_def ROIHandler_init_def)

lemma sample_objects:
  "objects sample_heap 0 = \<lparr>x = 0, y = 0, height = 2, width = 2\<rparr>"
  "objects sample_heap (Suc 0) = \<lparr>x = 0, y = 0, height = 2, width = 2\<rparr>"
  "objects sample_heap 2 = \<lparr>x = 1, y = 0, height = 2, width = 2\<rparr>"
  by (simp_all add: sample_heap_def ROI_init_def empty_heap_def)

lemma sample_isMoving:
  "region_isMoving raster_lib sample_heap (MotionDetector_init (Some MotionDetectorByMeanColor))
     frame_a frame_b 0 = Inr True"
  "region_isMoving raster_lib sample_heap (MotionDetector_init (Some MotionDetectorByMeanColor))
     frame_a frame_b (Suc 0) = Inr True"
  by (simp_all add: region_isMoving_def sample_objects MotionDetector_isMoving_def
        MotionDetector_init_def MotionDetectorByMeanColor_isMoving_def raster_lib_sel
        frame_a_def frame_b_def raster_mean_def)

lemma sample_getRegionsMoving:
  "fst (getRegionsMoving raster_lib sample_heap (sample_handler (Some MotionDetectorByMeanColor))
          frame_a frame_b) =
     ([Print ''Error: Region out of bounds of Image''], Inr [0, 1])"
  by (simp add: getRegionsMoving_def sample_dict getRegionsMoving_loop_step region_fits_def
        sample_fits sample_isMoving emit_def del: getRegionsMoving_loop.simps(2))

text \<open>
  Whenever the flattened difference is not empty and 0 everywhere, MatrixPercentage
  answers \<open>True\<close>.
\<close>

lemma count_black_all_zero:
  "flat_matrix \<noteq> [] \<Longrightarrow> set flat_matrix \<subseteq> {0} \<Longrightarrow> set rest \<subseteq> {0} \<Longrightarrow>
   count_black flat_matrix rest counter = Inr (counter + length rest)"
proof (induction rest arbitrary: counter)
  case Nil
  show ?case by simp
next
  case (Cons pixel rest)
  then have "pixel = 0" by simp
  moreover from Cons.prems have "flat_matrix ! 0 = 0"
    by (metis length_greater_0_conv nth_mem singletonD subsetD)
  ultimately have "getitem flat_matrix pixel = Inr 0"
    using Cons.prems(1) by (simp add: getitem_def)
  with Cons show ?case by simp
qed

lemma matrix_zero_difference_moving:
  assumes "img_flatten lib (img_sub lib new_image old_image) \<noteq> []"
    and "set (img_flatten lib (img_sub lib new_image old_image)) \<subseteq> {0}"
  shows "MotionDetectorByMatrix_isMoving lib new_image old_image = Inr True"
  using assms
  by (simp add: MotionDetectorByMatrix_isMoving_def Let_def count_black_all_zero)

text \<open>
  Whenever the flattened difference has at least two entries and is 1 everywhere,
  MatrixPercentage answers \<open>False\<close>, while \<open>changed_fraction\<close> is 1.
\<close>

lemma count_black_all_one:
  "2 \<le> length flat_matrix \<Longrightarrow> set flat_matrix \<subseteq> {1} \<Longrightarrow> set rest \<subseteq> {1} \<Longrightarrow>
   count_black flat_matrix rest counter = Inr counter"
proof (induction rest arbitrary: counter)
  case Nil
  show ?case by simp
next
  case (Cons pixel rest)
  then have "pixel = 1" by simp
  moreover from Cons.prems have "flat_matrix ! 1 = 1"
    by (metis Suc_1 Suc_le_lessD nth_mem singletonD subsetD)
  ultimately have "getitem flat_matrix pixel = Inr 1"
    using Cons.prems(1) by (simp add: getitem_def)
  with Cons show ?case by simp
qed

lemma matrix_all_one_difference_not_moving:
  assumes "2 \<le> length (img_flatten lib (img_sub lib new_image old_image))"
    and "set (img_flatten lib (img_sub lib new_image old_image)) \<subseteq> {1}"
  shows "MotionDetectorByMatrix_isMoving lib new_image old_image = Inr False"
    and "MatrixPercentage_rule lib new_image old_image"
proof -
  let ?flat = "img_flatten lib (img_sub lib new_image old_image)"
  from assms have ne: "?flat \<noteq> []" by auto
  from assms show "MotionDetectorByMatrix_isMoving lib new_image old_image = Inr False"
    using ne by (simp add: MotionDetectorByMatrix_isMoving_def Let_def count_black_all_one)
  from assms(2) have "filter (\<lambda>p. p = 0) ?flat = []"
    by (auto simp: filter_empty_conv)
  then show "MatrixPercentage_rule lib new_image old_image"
    by (simp add: MatrixPercentage_rule_def changed_fraction_def)
qed

subsection \<open>The strategies\<close>

text \<open>
  Claim C1 (MatrixPercentage reports motion iff \<open>changed_fraction > 0.5\<close>). The code does
  not follow the rule. Its \<^verbatim>\<open>percent_change\<close> is the fraction of entries counted as
  black, that is of pixels that did not change, and motion is reported when that fraction
  is above 0.5. With two frames of 2 by 2 pixels that differ by 1 in every pixel, the
  difference flattens to twelve entries 1; every turn of the loop reads entry 1, which is
  not 0, the counter stays 0, \<open>0 / 12 > 0.5\<close> fails and the code returns \<open>False\<close>,
  where the rule of the specification has \<open>changed_fraction = 1\<close> and reports motion.
  The same happens on every pair of frames whose difference is 1 everywhere, in whatever
  order and number of channels the library flattens it
  (\<open>matrix_all_one_difference_not_moving\<close>).
\<close>

theorem matrix_all_changed_not_moving:
  "MotionDetectorByMatrix_isMoving raster_lib [ [8, 8], [8, 8] ] [ [7, 7], [7, 7] ] = Inr False \<and>
   MatrixPercentage_rule raster_lib [ [8, 8], [8, 8] ] [ [7, 7], [7, 7] ]"
  by (simp add: MotionDetectorByMatrix_isMoving_def MatrixPercentage_rule_def
        changed_fraction_def getitem_def raster_lib_sel)

text \<open>
  Claim C2 (identical frames give \<open>False\<close> under MatrixPercentage). On two identical
  frames of 2 by 2 pixels the difference is 0 everywhere, every one of the twelve entries
  is counted, \<^verbatim>\<open>percent_change\<close> is \<open>12 / 12\<close> and the code returns \<open>True\<close>.
  The same happens on every pair of frames whose difference is 0 everywhere
  (\<open>matrix_zero_difference_moving\<close>).
\<close>

theorem matrix_identical_frames_moving:
  "MotionDetectorByMatrix_isMoving raster_lib [ [7, 7], [7, 7] ] [ [7, 7], [7, 7] ] = Inr True"
  by (simp add: MotionDetectorByMatrix_isMoving_def getitem_def raster_lib_sel)



text \<open>
  Claim C7: a detector built without a strategy answers \<open>False\<close> on every pair of
  frames; a detector built with a strategy answers what the strategy answers on the same
  pair, an exception of the strategy included.
\<close>

theorem MotionDetector_delegates:
  "MotionDetector_isMoving lib (MotionDetector_init None) new_image old_image = Inr False \<and>
   MotionDetector_isMoving lib (MotionDetector_init (Some s)) new_image old_image =
     strategy_isMoving lib s new_image old_image"
  by (simp add: MotionDetector_isMoving_def MotionDetector_init_def)

subsection \<open>The dispatcher\<close>

text \<open>
  Claim C5: \<^verbatim>\<open>CheckRegionFits\<close> is true exactly when \<open>y + height\<close> is at most the
  height of the frame and \<open>x + width\<close> at most its width. The region \<^verbatim>\<open>ROI(0, 0, 10, 10)\<close>
  fits a frame of 10 by 10 pixels, the region \<^verbatim>\<open>ROI(1, 0, 10, 10)\<close> does not.
\<close>

theorem CheckRegionFits_bounds:
  "CheckRegionFits lib hp r img =
     (y (objects hp r) + height (objects hp r) \<le> img_height lib img \<and>
      x (objects hp r) + width (objects hp r) \<le> img_width lib img) \<and>
   CheckRegionFits raster_lib (snd (ROI_init empty_heap 0 0 10 10))
     (fst (ROI_init empty_heap 0 0 10 10)) (replicate 10 (replicate 10 0)) \<and>
   \<not> CheckRegionFits raster_lib (snd (ROI_init empty_heap 1 0 10 10))
     (fst (ROI_init empty_heap 1 0 10 10)) (replicate 10 (replicate 10 0))"
  apply (intro conjI)
  subgoal by (simp add: CheckRegionFits_def)
  subgoal by (simp add: CheckRegionFits_def ROI_init_def empty_heap_def eval_nat_numeral raster_lib_sel)
  subgoal by (simp add: CheckRegionFits_def ROI_init_def empty_heap_def eval_nat_numeral raster_lib_sel)
  done

text \<open>
  Claim C3: a region that fails the fit check against one of the two frames is not among
  the regions \<^verbatim>\<open>getRegionsMoving\<close> returns, and \<^verbatim>\<open>ExecMovingRegionFuncs\<close> calls
  no function with it. Its turn in the loop prints the message, raises nothing and goes
  on with the remaining keys and the same list. The other regions are processed as if
  the region had never been registered: \<^verbatim>\<open>getRegionsMoving\<close> gives the same result
  (the same list, or the same exception of the strategy on another region), and
  \<^verbatim>\<open>ExecMovingRegionFuncs\<close> makes the same calls with the same outcome.
\<close>

theorem non_fitting_region_skipped:
  assumes "\<not> (CheckRegionFits lib hp R new_image \<and> CheckRegionFits lib hp R old_image)"
  shows "(\<forall>regs. snd (fst (getRegionsMoving lib hp self new_image old_image)) = Inr regs
            \<longrightarrow> R \<notin> set regs) \<and>
         R \<notin> set (called_regions (fst (fst (ExecMovingRegionFuncs lib hp self new_image old_image)))) \<and>
         getRegionsMoving_loop lib hp new_image old_image (R # rs) self acc =
           emit (Print ''Error: Region out of bounds of Image'')
             (getRegionsMoving_loop lib hp new_image old_image rs self acc) \<and>
         snd (fst (getRegionsMoving lib hp self new_image old_image)) =
           snd (fst (getRegionsMoving lib hp (forget_region self R) new_image old_image)) \<and>
         filter is_Call (fst (fst (ExecMovingRegionFuncs lib hp self new_image old_image))) =
           filter is_Call (fst (fst (ExecMovingRegionFuncs lib hp (forget_region self R) new_image old_image))) \<and>
         snd (fst (ExecMovingRegionFuncs lib hp self new_image old_image)) =
           snd (fst (ExecMovingRegionFuncs lib hp (forget_region self R) new_image old_image))"
proof -
  let ?G = "getRegionsMoving lib hp self new_image old_image"
  let ?G' = "getRegionsMoving lib hp (forget_region self R) new_image old_image"
  let ?E = "ExecMovingRegionFuncs lib hp self new_image old_image"
  let ?E' = "ExecMovingRegionFuncs lib hp (forget_region self R) new_image old_image"
  from assms have nofit: "\<not> region_fits lib hp new_image old_image R"
    by (simp add: region_fits_def)
  have absent: "R \<notin> set regs" if "snd (fst ?G) = Inr regs" for regs
  proof -
    from that have "regs = [] @ filter (\<lambda>k. region_fits lib hp new_image old_image k \<and>
        region_isMoving lib hp (MotionDetector self) new_image old_image k = Inr True) (map fst (ROIDict self))"
      unfolding getRegionsMoving_def by (rule getRegionsMoving_loop_result)
    with nofit show ?thesis by auto
  qed
  have step: "getRegionsMoving_loop lib hp new_image old_image (R # rs) self acc =
           emit (Print ''Error: Region out of bounds of Image'')
             (getRegionsMoving_loop lib hp new_image old_image rs self acc)"
    using nofit by (simp add: getRegionsMoving_loop_step del: getRegionsMoving_loop.simps)
  have "fst (getRegionsMoving_loop lib hp new_image old_image (removeAll R (map fst (ROIDict self)))
               (forget_region self R) []) =
        fst (getRegionsMoving_loop lib hp new_image old_image (removeAll R (map fst (ROIDict self)))
               self [])"
    by (rule getRegionsMoving_loop_detector) (simp add: forget_region_def)
  then have same: "snd (fst ?G) = snd (fst ?G')"
    using getRegionsMoving_loop_removeAll [OF nofit, of "map fst (ROIDict self)" self "[]"]
    by (simp add: getRegionsMoving_def forget_region_def keys_delete)
  obtain evs res where G: "fst ?G = (evs, res)" by (cases "fst ?G")
  obtain evs' where G': "fst ?G' = (evs', res)" using same G by (cases "fst ?G'") simp
  have p: "filter is_Call evs = []" "filter is_Call evs' = []"
    using G G' getRegionsMoving_loop_prints [of lib hp new_image old_image _ _ "[]"]
    by (metis fst_conv getRegionsMoving_def)+
  have calls: "R \<notin> set (called_regions (fst (fst ?E))) \<and>
               filter is_Call (fst (fst ?E)) = filter is_Call (fst (fst ?E')) \<and>
               snd (fst ?E) = snd (fst ?E')"
  proof (cases res)
    case (Inl e)
    with G G' p show ?thesis
      by (simp add: ExecMovingRegionFuncs_Inl called_regions_def)
  next
    case (Inr moving)
    with G have "snd (fst ?G) = Inr moving" by simp
    then have R: "R \<notin> set moving" by (rule absent)
    then have "map (\<lambda>m. Call (the (map_of (ROIDict (forget_region self R)) m)) m old_image) moving =
               map (\<lambda>m. Call (the (map_of (ROIDict self) m)) m old_image) moving"
      by (auto simp: forget_region_def delete_conv')
    with Inr G G' p R show ?thesis
      by (simp add: ExecMovingRegionFuncs_Inr called_regions_calls)
  qed
  from absent step same calls show ?thesis by blast
qed

theorem non_fitting_region_skipped_witness:
  "\<not> (CheckRegionFits raster_lib sample_heap 2 frame_a \<and> CheckRegionFits raster_lib sample_heap 2 frame_b) \<and>
   2 \<in> fst ` set (ROIDict (sample_handler (Some MotionDetectorByMeanColor))) \<and>
   snd (fst (getRegionsMoving raster_lib sample_heap
           (sample_handler (Some MotionDetectorByMeanColor)) frame_a frame_b)) = Inr [0, 1] \<and>
   2 \<notin> set (called_regions (fst (fst (ExecMovingRegionFuncs raster_lib sample_heap
           (sample_handler (Some MotionDetectorByMeanColor)) frame_a frame_b)))) \<and>
   snd (fst (getRegionsMoving raster_lib sample_heap
           (sample_handler (Some MotionDetectorByMeanColor)) frame_a frame_b)) =
   snd (fst (getRegionsMoving raster_lib sample_heap
           (forget_region (sample_handler (Some MotionDetectorByMeanColor)) 2) frame_a frame_b))"
proof -
  have h: "\<not> (CheckRegionFits raster_lib sample_heap 2 frame_a \<and> CheckRegionFits raster_lib sample_heap 2 frame_b)"
    by (simp add: sample_fits)
  have r: "2 \<in> fst ` set (ROIDict (sample_handler (Some MotionDetectorByMeanColor)))"
    by (simp add: sample_dict)
  have g: "snd (fst (getRegionsMoving raster_lib sample_heap
           (sample_handler (Some MotionDetectorByMeanColor)) frame_a frame_b)) = Inr [0, 1]"
    by (simp add: sample_getRegionsMoving)
  from h r g non_fitting_region_skipped [OF h, of "sample_handler (Some MotionDetectorByMeanColor)" "[]" "[]"]
  show ?thesis by blast
qed

text \<open>
  Claim C4: \<^verbatim>\<open>ExecMovingRegionFuncs\<close> first runs \<^verbatim>\<open>getRegionsMoving\<close>; its events
  come first. If that raises, nothing is called. Otherwise, for the list \<open>moving\<close> it
  returned, the calls made are, in order, one call for each element \<open>m\<close>, of the function
  registered for \<open>m\<close>, with \<open>m\<close> and the old frame. Every element is a key of the
  dictionary and the list has no duplicates, so each moving region has its function called
  exactly once. The keys of a dictionary are distinct; the handlers built by
  \<^verbatim>\<open>ROIHandler(...)\<close> and \<^verbatim>\<open>MapRegionToFunc\<close> satisfy this
  (\<open>distinct_keys_init\<close>, \<open>distinct_keys_MapRegionToFunc\<close>).
\<close>

theorem ExecMovingRegionFuncs_calls_old_frame:
  assumes "distinct (map fst (ROIDict self))"
  shows "case fst (getRegionsMoving lib hp self new_image old_image) of
           (evs, Inl e) \<Rightarrow>
             ExecMovingRegionFuncs lib hp self new_image old_image = ((evs, Inl e), self)
         | (evs, Inr moving) \<Rightarrow>
             ExecMovingRegionFuncs lib hp self new_image old_image =
               ((evs @ map (\<lambda>m. Call (the (map_of (ROIDict self) m)) m old_image) moving, Inr ()), self) \<and>
             set moving \<subseteq> fst ` set (ROIDict self) \<and>
             distinct moving \<and>
             called_regions (fst (fst (ExecMovingRegionFuncs lib hp self new_image old_image))) = moving"
proof (cases "fst (getRegionsMoving lib hp self new_image old_image)")
  case (Pair evs res)
  show ?thesis
  proof (cases res)
    case (Inl e)
    with Pair show ?thesis by (simp add: ExecMovingRegionFuncs_Inl)
  next
    case (Inr moving)
    with Pair have G: "fst (getRegionsMoving lib hp self new_image old_image) = (evs, Inr moving)"
      by simp
    then have "snd (fst (getRegionsMoving_loop lib hp new_image old_image (map fst (ROIDict self)) self [])) = Inr moving"
      by (simp add: getRegionsMoving_def)
    from getRegionsMoving_loop_result [OF this] assms have d: "distinct moving" by simp
    have p: "filter is_Call evs = []"
      using G getRegionsMoving_loop_prints [of lib hp new_image old_image "map fst (ROIDict self)" self "[]"]
      by (simp add: getRegionsMoving_def)
    from G d p show ?thesis
      by (simp add: ExecMovingRegionFuncs_Inr getRegionsMoving_registered [OF G] called_regions_calls)
  qed
qed

theorem ExecMovingRegionFuncs_calls_old_frame_witness:
  "distinct (map fst (ROIDict (sample_handler (Some MotionDetectorByMeanColor)))) \<and>
   ExecMovingRegionFuncs raster_lib sample_heap (sample_handler (Some MotionDetectorByMeanColor))
       frame_a frame_b =
     (([Print ''Error: Region out of bounds of Image'', Call ''f'' 0 frame_b, Call ''g'' 1 frame_b],
       Inr ()),
      sample_handler (Some MotionDetectorByMeanColor))"
proof -
  have h: "distinct (map fst (ROIDict (sample_handler (Some MotionDetectorByMeanColor))))"
    by (simp add: sample_dict)
  from ExecMovingRegionFuncs_calls_old_frame [OF h, of raster_lib sample_heap frame_a frame_b] h
  show ?thesis by (simp add: sample_getRegionsMoving sample_dict)
qed

text \<open>
  Claim C8: with the strategy \<^verbatim>\<open>MotionDetectorByMockup\<close>, \<^verbatim>\<open>getRegionsMoving\<close>
  returns a list, and every registered region that fits both frames is in it, whatever
  the frames hold.
\<close>

theorem mockup_reports_fitting_regions:
  assumes "concrete_strategy (MotionDetector self) = Some MotionDetectorByMockup"
    and "R \<in> fst ` set (ROIDict self)"
    and "CheckRegionFits lib hp R new_image"
    and "CheckRegionFits lib hp R old_image"
  shows "\<exists>evs regs. getRegionsMoving lib hp self new_image old_image = ((evs, Inr regs), self) \<and>
           R \<in> set regs"
proof -
  from getRegionsMoving_loop_mockup [OF assms(1), of lib hp new_image old_image "map fst (ROIDict self)" "[]"]
  obtain evs where "getRegionsMoving lib hp self new_image old_image =
      ((evs, Inr (filter (region_fits lib hp new_image old_image) (map fst (ROIDict self)))), self)"
    by (auto simp: getRegionsMoving_def)
  moreover from assms(2-4)
  have "R \<in> set (filter (region_fits lib hp new_image old_image) (map fst (ROIDict self)))"
    by (simp add: region_fits_def)
  ultimately show ?thesis by blast
qed

theorem mockup_reports_fitting_regions_witness:
  "concrete_strategy (MotionDetector (sample_handler (Some MotionDetectorByMockup))) =
     Some MotionDetectorByMockup \<and>
   1 \<in> fst ` set (ROIDict (sample_handler (Some MotionDetectorByMockup))) \<and>
   CheckRegionFits raster_lib sample_heap 1 frame_a \<and>
   CheckRegionFits raster_lib sample_heap 1 frame_b \<and>
   (\<exists>evs regs. getRegionsMoving raster_lib sample_heap (sample_handler (Some MotionDetectorByMockup))
                  frame_a frame_b =
                ((evs, Inr regs), sample_handler (Some MotionDetectorByMockup)) \<and>
              1 \<in> set regs)"
proof -
  have h1: "concrete_strategy (MotionDetector (sample_handler (Some MotionDetectorByMockup))) =
     Some MotionDetectorByMockup"
    by (simp add: sample_dict MotionDetector_init_def)
  have h2: "1 \<in> fst ` set (ROIDict (sample_handler (Some MotionDetectorByMockup)))"
    by (simp add: sample_dict)
  have h3: "CheckRegionFits raster_lib sample_heap 1 frame_b"
    by (simp add: sample_fits)
  have h4: "CheckRegionFits raster_lib sample_heap 1 frame_a"
    by (simp add: sample_fits)
  from mockup_reports_fitting_regions [OF h1 h2 h4 h3] h1 h2 h3 h4 show ?thesis by blast
qed

text \<open>
  Claim C9: two \<^verbatim>\<open>ROI\<close> objects built with the same four values are different keys.
  After registering \<open>f\<close> for the first and \<open>g\<close> for the second, the dictionary maps the
  first to \<open>f\<close> and the second to \<open>g\<close>, \<^verbatim>\<open>ExecRegionFunc\<close> calls \<open>f\<close> for the
  first and \<open>g\<close> for the second, and on a new handler the dictionary has exactly these two
  entries.
\<close>

theorem equal_regions_separate_entries:
  "(case ROI_init hp x0 y0 w0 h0 of (r1, hp1) \<Rightarrow>
    case ROI_init hp1 x0 y0 w0 h0 of (r2, hp2) \<Rightarrow>
      r1 \<noteq> r2 \<and> objects hp2 r1 = objects hp2 r2 \<and>
      map_of (ROIDict (MapRegionToFunc (MapRegionToFunc self r1 f) r2 g)) r1 = Some f \<and>
      map_of (ROIDict (MapRegionToFunc (MapRegionToFunc self r1 f) r2 g)) r2 = Some g \<and>
      fst (ExecRegionFunc (MapRegionToFunc (MapRegionToFunc self r1 f) r2 g) r1 img) =
        ([Call f r1 img], Inr ()) \<and>
      fst (ExecRegionFunc (MapRegionToFunc (MapRegionToFunc self r1 f) r2 g) r2 img) =
        ([Call g r2 img], Inr ()) \<and>
      ROIDict (MapRegionToFunc (MapRegionToFunc (ROIHandler_init md_strategy) r1 f) r2 g) =
        [(r1, f), (r2, g)])"
  by (simp add: ROI_init_def MapRegionToFunc_def ExecRegionFunc_def ROIHandler_init_def update_conv')

text \<open>
  Claim C10: \<^verbatim>\<open>getRegionsMoving\<close>, \<^verbatim>\<open>ExecMovingRegionFuncs\<close> and
  \<^verbatim>\<open>ExecRegionFunc\<close> return the handler as they received it, dictionary and
  detector. \<^verbatim>\<open>MapRegionToFunc\<close> keeps the detector and changes the dictionary at the
  registered key only. The registered functions are taken not to reach the handler.
\<close>

theorem dispatch_leaves_handler_unchanged:
  "snd (getRegionsMoving lib hp self new_image old_image) = self \<and>
   snd (ExecMovingRegionFuncs lib hp self new_image old_image) = self \<and>
   snd (ExecRegionFunc self r img) = self \<and>
   MotionDetector (MapRegionToFunc self r func) = MotionDetector self \<and>
   map_of (ROIDict (MapRegionToFunc self r func)) = (map_of (ROIDict self))(r \<mapsto> func)"
  by (simp add: getRegionsMoving_self ExecMovingRegionFuncs_self ExecRegionFunc_def
        MapRegionToFunc_def update_conv' split: option.splits)

end
